theory Spec2Isabelle
  imports Complex_Main "HOL-Library.Word"
begin

section \<open>STL decoding and mass estimation of \<open>demo_server.py\<close>\<close>

text \<open>
  The development embeds the class \<open>STLUtils\<close> of \<open>demo_server.py\<close>: the format test
  \<open>is_binary\<close>, the binary decoder \<open>read_triangle\<close> / \<open>read_stl\<close> and the estimator
  \<open>signed_volume_of_triangle\<close> / \<open>calculate_volume\<close>.

  Modelling decisions.
  \<^item> A file is the list of its bytes; an open file object is the list of the bytes not
    yet read, so \<open>f.read(n)\<close> hands out \<open>take n\<close> and leaves \<open>drop n\<close>.
  \<^item> Python floats are idealised as real numbers: rounding, infinities and NaN are
    outside the model. The float that \<open>struct.unpack\<close> makes of a 32-bit pattern is
    given by a parameter \<open>flt\<close> of the decoder, so every theorem about the decoder
    holds whatever value a pattern denotes.
  \<^item> The byte order of the format character \<open>@\<close> is the platform's; it is the
    parameter \<open>bo\<close> of the decoder.
  \<^item> The only exception the modelled code raises is \<open>struct.error\<close>, when
    \<open>struct.unpack\<close> is given a buffer of the wrong size. The instance attribute
    \<open>self.triangles\<close> is mutated before the exception leaves \<open>read_stl\<close>, so a failed
    call returns the error together with the instance as the exception left it.
\<close>

subsection \<open>Data\<close>

type_synonym byte = "8 word"

type_synonym point = "real \<times> real \<times> real"

type_synonym triangle = "point \<times> point \<times> point"

text \<open>\<open>struct.error\<close>; the number is the buffer size its message asks for.\<close>

datatype error = StructError nat

text \<open>\<open>sys.byteorder\<close>, which decides what \<open>@I\<close> reads.\<close>

datatype byteorder = LittleEndian | BigEndian

record STLUtils =
  triangles :: "triangle list"

text \<open>\<open>STLUtils.__init__\<close>\<close>

definition STLUtils_init :: STLUtils where
  "STLUtils_init = \<lparr>triangles = []\<rparr>"

subsection \<open>The estimator\<close>

text \<open>\<open>STLUtils.signed_volume_of_triangle\<close>; \<open>p[0]\<close>, \<open>p[1]\<close>, \<open>p[2]\<close> are x, y, z.\<close>

fun signed_volume_of_triangle :: "point \<Rightarrow> point \<Rightarrow> point \<Rightarrow> real" where
  "signed_volume_of_triangle (x1, y1, z1) (x2, y2, z2) (x3, y3, z3) =
     (let v321 = x3 * y2 * z1;
          v231 = x2 * y3 * z1;
          v312 = x3 * y1 * z2;
          v132 = x1 * y3 * z2;
          v213 = x2 * y1 * z3;
          v123 = x1 * y2 * z3
      in (1 / 6) * (- v321 + v231 + v312 - v132 - v213 + v123))"

text \<open>The built-in \<open>sum\<close>: it starts from 0 and adds the items from left to right.\<close>

definition py_sum :: "real list \<Rightarrow> real" where
  "py_sum xs = foldl (+) 0 xs"

text \<open>
  \<open>STLUtils.calculate_volume\<close>. The body has no \<open>raise\<close> and calls nothing that raises,
  so the result is always the pair.
\<close>

definition calculate_volume :: "STLUtils \<Rightarrow> real \<Rightarrow> error + (real \<times> real)" where
  "calculate_volume self material_mass =
     (let total_volume =
            py_sum (map (\<lambda>(p1, p2, p3). signed_volume_of_triangle p1 p2 p3) (triangles self))
              / 1000;
          total_mass = total_volume * material_mass
      in Inr (total_volume, total_mass))"

subsection \<open>Library operations the decoder calls\<close>

text \<open>
  \<open>bytes.decode(errors='replace')\<close> with the default encoding UTF-8, as CPython decodes:
  code points are natural numbers, every ill-formed sequence becomes one U+FFFD. An
  invalid start byte is replaced alone; a start byte whose continuation fails is
  replaced together with the continuation bytes that were accepted, and decoding goes
  on at the offending byte; a sequence cut off by the end of the data is replaced as a
  whole. The function is total: no input makes it fail.
\<close>

definition continuation :: "nat \<Rightarrow> bool" where
  "continuation c = (0x80 \<le> c \<and> c < 0xC0)"

fun utf8_decode_replace :: "byte list \<Rightarrow> nat list" where
  "utf8_decode_replace [] = []"
| "utf8_decode_replace (b # bs) =
     (let ch = unat b in
      if ch < 0x80 then ch # utf8_decode_replace bs
      else if ch < 0xC2 then 0xFFFD # utf8_decode_replace bs
      else if ch < 0xE0 then
        (case bs of
           [] \<Rightarrow> [0xFFFD]
         | b2 # r2 \<Rightarrow>
             if continuation (unat b2)
             then (ch * 64 + unat b2 - (0xC0 * 64 + 0x80)) # utf8_decode_replace r2
             else 0xFFFD # utf8_decode_replace bs)
      else if ch < 0xF0 then
        (case bs of
           [] \<Rightarrow> [0xFFFD]
         | b2 # r2 \<Rightarrow>
             if \<not> continuation (unat b2)
                \<or> (if unat b2 < 0xA0 then ch = 0xE0 else ch = 0xED)
             then 0xFFFD # utf8_decode_replace bs
             else (case r2 of
                     [] \<Rightarrow> [0xFFFD]
                   | b3 # r3 \<Rightarrow>
                       if continuation (unat b3)
                       then (ch * 4096 + unat b2 * 64 + unat b3
                               - (0xE0 * 4096 + 0x80 * 64 + 0x80)) # utf8_decode_replace r3
                       else 0xFFFD # utf8_decode_replace r2))
      else if ch < 0xF5 then
        (case bs of
           [] \<Rightarrow> [0xFFFD]
         | b2 # r2 \<Rightarrow>
             if \<not> continuation (unat b2)
                \<or> (if unat b2 < 0x90 then ch = 0xF0 else ch = 0xF4)
             then 0xFFFD # utf8_decode_replace bs
             else (case r2 of
                     [] \<Rightarrow> [0xFFFD]
                   | b3 # r3 \<Rightarrow>
                       if \<not> continuation (unat b3)
                       then 0xFFFD # utf8_decode_replace r2
                       else (case r3 of
                               [] \<Rightarrow> [0xFFFD]
                             | b4 # r4 \<Rightarrow>
                                 if continuation (unat b4)
                                 then (ch * 262144 + unat b2 * 4096 + unat b3 * 64 + unat b4
                                         - (0xF0 * 262144 + 0x80 * 4096 + 0x80 * 64 + 0x80))
                                      # utf8_decode_replace r4
                                 else 0xFFFD # utf8_decode_replace r3)))
      else 0xFFFD # utf8_decode_replace bs)"

text \<open>\<open>str.startswith\<close> (and the same test on bytes).\<close>

definition startswith :: "'a list \<Rightarrow> 'a list \<Rightarrow> bool" where
  "startswith s p = (take (length p) s = p)"

text \<open>The string \<open>'solid'\<close> as code points, and the bytes \<open>b'solid'\<close>.\<close>

definition solid :: "nat list" where
  "solid = [0x73, 0x6F, 0x6C, 0x69, 0x64]"

definition solid_bytes :: "byte list" where
  "solid_bytes = [0x73, 0x6F, 0x6C, 0x69, 0x64]"

text \<open>
  \<open>f.read(n)\<close> on a file opened with \<open>'rb'\<close>: the next \<open>n\<close> bytes, fewer at the end of the
  file, and the file object after the read.
\<close>

definition fread :: "nat \<Rightarrow> byte list \<Rightarrow> byte list \<times> byte list" where
  "fread n f = (take n f, drop n f)"

text \<open>The unsigned integer whose little-endian bytes are given.\<close>

fun le_word :: "byte list \<Rightarrow> 32 word" where
  "le_word [] = 0"
| "le_word (b # bs) = ucast b + 256 * le_word bs"

text \<open>The unsigned integer whose bytes are given in the platform's byte order.\<close>

definition native_word :: "byteorder \<Rightarrow> byte list \<Rightarrow> 32 word" where
  "native_word bo buf =
     (case bo of LittleEndian \<Rightarrow> le_word buf | BigEndian \<Rightarrow> le_word (rev buf))"

text \<open>
  \<open>struct.unpack("@I", buf)[0]\<close>: one unsigned int of 4 bytes in the platform's byte
  order; \<open>struct.error\<close> unless the buffer has exactly 4 bytes.
\<close>

definition unpack_I :: "byteorder \<Rightarrow> byte list \<Rightarrow> error + 32 word" where
  "unpack_I bo buf =
     (if length buf \<noteq> 4 then Inl (StructError 4) else Inr (native_word bo buf))"

text \<open>
  \<open>struct.unpack("<3f", buf)\<close>: three little-endian 32-bit patterns, each turned into
  a float by \<open>flt\<close>; \<open>struct.error\<close> unless the buffer has exactly 12 bytes.
\<close>

definition unpack_3f :: "(32 word \<Rightarrow> real) \<Rightarrow> byte list \<Rightarrow> error + point" where
  "unpack_3f flt buf =
     (if length buf \<noteq> 12 then Inl (StructError 12)
      else Inr (flt (le_word (take 4 buf)),
                flt (le_word (take 4 (drop 4 buf))),
                flt (le_word (take 4 (drop 8 buf)))))"

subsection \<open>The decoder\<close>

text \<open>\<open>STLUtils.is_binary\<close>, on the bytes of the file.\<close>

definition is_binary :: "byte list \<Rightarrow> bool" where
  "is_binary file =
     (let header = utf8_decode_replace (fst (fread 80 file))
      in \<not> startswith header solid)"

text \<open>
  \<open>STLUtils.read_triangle\<close>: the triangle and the file object after it, or the error of
  the first \<open>unpack\<close> that gets a short buffer. The last \<open>f.read(2)\<close> is not unpacked, so
  it cannot fail.
\<close>

definition read_triangle ::
  "(32 word \<Rightarrow> real) \<Rightarrow> byte list \<Rightarrow> error + (triangle \<times> byte list)" where
  "read_triangle flt f =
     (let (b0, f1) = fread 12 f in
      case unpack_3f flt b0 of Inl e \<Rightarrow> Inl e
      | Inr _ \<Rightarrow>
     (let (b1, f2) = fread 12 f1 in
      case unpack_3f flt b1 of Inl e \<Rightarrow> Inl e
      | Inr p1 \<Rightarrow>
     (let (b2, f3) = fread 12 f2 in
      case unpack_3f flt b2 of Inl e \<Rightarrow> Inl e
      | Inr p2 \<Rightarrow>
     (let (b3, f4) = fread 12 f3 in
      case unpack_3f flt b3 of Inl e \<Rightarrow> Inl e
      | Inr p3 \<Rightarrow>
     (let (_, f5) = fread 2 f4 in
      Inr ((p1, p2, p3), f5))))))"

text \<open>
  The loop \<open>for _ in range(length): self.triangles.append(self.read_triangle(f))\<close>:
  the list is extended after each triangle, and an error leaves it as it is then.
\<close>

fun read_loop ::
  "(32 word \<Rightarrow> real) \<Rightarrow> nat \<Rightarrow> byte list \<Rightarrow> triangle list
     \<Rightarrow> (error + unit) \<times> triangle list" where
  "read_loop flt 0 f ts = (Inr (), ts)"
| "read_loop flt (Suc n) f ts =
     (case read_triangle flt f of
        Inl e \<Rightarrow> (Inl e, ts)
      | Inr (t, f') \<Rightarrow> read_loop flt n f' (ts @ [t]))"

text \<open>
  \<open>STLUtils.read_stl\<close>: the outcome of the call (\<open>None\<close> is returned, or \<open>struct.error\<close>
  is raised) and the instance afterwards. \<open>f.seek(80)\<close> on the freshly opened file
  leaves the bytes from offset 80 on.
\<close>

definition read_stl ::
  "(32 word \<Rightarrow> real) \<Rightarrow> byteorder \<Rightarrow> byte list \<Rightarrow> STLUtils
     \<Rightarrow> (error + unit) \<times> STLUtils" where
  "read_stl flt bo file self =
     (if is_binary file then
        (let f = drop 80 file;
             (b, f') = fread 4 f
         in case unpack_I bo b of
              Inl e \<Rightarrow> (Inl e, self)
            | Inr length' \<Rightarrow>
                (case read_loop flt (unat length') f' (triangles self) of
                   (r, ts) \<Rightarrow> (r, self\<lparr>triangles := ts\<rparr>)))
      else (Inr (), self))"

subsection \<open>Vocabulary of the statements about the estimator\<close>

text \<open>The signed volume of one triangle of the list.\<close>

definition triangle_volume :: "triangle \<Rightarrow> real" where
  "triangle_volume t = (case t of (p1, p2, p3) \<Rightarrow> signed_volume_of_triangle p1 p2 p3)"

text \<open>The same face with the opposite winding.\<close>

definition flip_winding :: "triangle \<Rightarrow> triangle" where
  "flip_winding t = (case t of (p1, p2, p3) \<Rightarrow> (p1, p3, p2))"

subsection \<open>Vocabulary of the statements about the decoder\<close>

text \<open>
  One 50-byte record of the binary format, split into its five fields: the normal, the
  three vertices and the attribute field.
\<close>

type_synonym stl_record = "byte list \<times> byte list \<times> byte list \<times> byte list \<times> byte list"

definition record_bytes :: "stl_record \<Rightarrow> byte list" where
  "record_bytes r = (case r of (nrm, a, b, c, att) \<Rightarrow> nrm @ a @ b @ c @ att)"

definition record_ok :: "stl_record \<Rightarrow> bool" where
  "record_ok r =
     (case r of (nrm, a, b, c, att) \<Rightarrow>
        length nrm = 12 \<and> length a = 12 \<and> length b = 12 \<and> length c = 12 \<and> length att = 2)"

text \<open>The point that three little-endian floats of 4 bytes each encode.\<close>

definition vertex :: "(32 word \<Rightarrow> real) \<Rightarrow> byte list \<Rightarrow> point" where
  "vertex flt a =
     (flt (le_word (take 4 a)),
      flt (le_word (take 4 (drop 4 a))),
      flt (le_word (take 4 (drop 8 a))))"

text \<open>The triangle of a record: its three vertices; the normal and the attribute are not in it.\<close>

definition record_triangle :: "(32 word \<Rightarrow> real) \<Rightarrow> stl_record \<Rightarrow> triangle" where
  "record_triangle flt r =
     (case r of (nrm, a, b, c, att) \<Rightarrow> (vertex flt a, vertex flt b, vertex flt c))"

text \<open>The fields of the record at the front of a byte list, and the first \<open>k\<close> records of it.\<close>

definition split_record :: "byte list \<Rightarrow> stl_record" where
  "split_record f =
     (take 12 f, take 12 (drop 12 f), take 12 (drop 24 f), take 12 (drop 36 f),
      take 2 (drop 48 f))"

fun records_of :: "nat \<Rightarrow> byte list \<Rightarrow> stl_record list" where
  "records_of 0 f = []"
| "records_of (Suc k) f = split_record f # records_of k (drop 50 f)"

text \<open>The triangle count that the four bytes after the 80-byte header declare.\<close>

definition declared_count :: "byteorder \<Rightarrow> byte list \<Rightarrow> nat" where
  "declared_count bo file = unat (native_word bo (take 4 (drop 80 file)))"

subsection \<open>Example data\<close>

text \<open>
  The value of a finite IEEE-754 binary32 pattern: sign bit, 8 exponent bits, 23 fraction
  bits. The examples use it for \<open>flt\<close>. Patterns with exponent 255 are the infinities and
  NaNs, which are no real numbers; the formula is merely continued to them, and the
  examples contain none.
\<close>

definition float32_value :: "32 word \<Rightarrow> real" where
  "float32_value w =
     (let e = unat (drop_bit 23 w) mod 256;
          m = unat w mod 2 ^ 23;
          mag = (if e = 0 then real m / 2 ^ 149
                 else if e < 150 then real (2 ^ 23 + m) / 2 ^ (150 - e)
                 else real (2 ^ 23 + m) * 2 ^ (e - 150))
      in if bit w 31 then - mag else mag)"

text \<open>A header of 80 zero bytes, and the floats 1.0 and 0.0 in little-endian bytes.\<close>

definition zero_header :: "byte list" where
  "zero_header = replicate 80 0"

definition float_one :: "byte list" where
  "float_one = [0, 0, 0x80, 0x3F]"

definition float_zero :: "byte list" where
  "float_zero = [0, 0, 0, 0]"

text \<open>
  A record for the triangle (1,0,0), (0,1,0), (0,0,1), the same face wound the other way,
  and the first 48 bytes of the former: everything but its attribute field.
\<close>

definition unit_record :: stl_record where
  "unit_record =
     (replicate 12 0xFF,
      float_one @ float_zero @ float_zero,
      float_zero @ float_one @ float_zero,
      float_zero @ float_zero @ float_one,
      [0xAB, 0xCD])"

definition flipped_record :: stl_record where
  "flipped_record =
     (replicate 12 0,
      float_one @ float_zero @ float_zero,
      float_zero @ float_zero @ float_one,
      float_zero @ float_one @ float_zero,
      [0, 0])"

definition unit_geometry :: "byte list" where
  "unit_geometry =
     replicate 12 0xFF
       @ (float_one @ float_zero @ float_zero)
       @ (float_zero @ float_one @ float_zero)
       @ (float_zero @ float_zero @ float_one)"

definition unit_triangle :: triangle where
  "unit_triangle = ((1, 0, 0), (0, 1, 0), (0, 0, 1))"

definition flipped_triangle :: triangle where
  "flipped_triangle = ((1, 0, 0), (0, 0, 1), (0, 1, 0))"

text \<open>A stream that declares 5 triangles and holds the bytes of 2.\<close>

definition two_of_five_stream :: "byte list" where
  "two_of_five_stream =
     zero_header @ [5, 0, 0, 0] @ concat (map record_bytes [unit_record, unit_record]) @ []"

text \<open>A stream that declares 5 triangles and ends after the count.\<close>

definition none_of_five_stream :: "byte list" where
  "none_of_five_stream = zero_header @ [5, 0, 0, 0]"

text \<open>A stream that declares 1 triangle and ends before that triangle's attribute field.\<close>

definition no_attribute_stream :: "byte list" where
  "no_attribute_stream = zero_header @ [1, 0, 0, 0] @ unit_geometry"

text \<open>A stream that ends inside the count.\<close>

definition short_count_stream :: "byte list" where
  "short_count_stream = zero_header @ [5, 0]"

text \<open>
  A complete stream of 2 triangles with the count in big-endian bytes and one more byte
  after the last record, and a complete stream of 1 triangle with a little-endian count.
\<close>

definition big_endian_stream :: "byte list" where
  "big_endian_stream =
     zero_header @ [0, 0, 0, 2] @ concat (map record_bytes [unit_record, flipped_record]) @ [1]"

definition one_triangle_stream :: "byte list" where
  "one_triangle_stream =
     zero_header @ [1, 0, 0, 0] @ concat (map record_bytes [unit_record]) @ []"

text \<open>The bytes of the text \<open>solid x\<close>.\<close>

definition solid_stream :: "byte list" where
  "solid_stream = [0x73, 0x6F, 0x6C, 0x69, 0x64, 0x20, 0x78]"

subsection \<open>Facts about the estimator\<close>

lemma foldl_plus_sum_list: "foldl (+) a xs = a + sum_list (xs :: real list)"
  by (induction xs arbitrary: a) (simp_all add: add.assoc)

lemma py_sum_sum_list: "py_sum xs = sum_list xs"
  by (simp add: py_sum_def foldl_plus_sum_list)

lemma calculate_volume_eq:
  "calculate_volume self d =
     Inr ((\<Sum>t\<leftarrow>triangles self. triangle_volume t) / 1000,
          (\<Sum>t\<leftarrow>triangles self. triangle_volume t) / 1000 * d)"
proof -
  have "(\<lambda>(p1, p2, p3). signed_volume_of_triangle p1 p2 p3) = triangle_volume"
    by (rule ext) (simp add: triangle_volume_def)
  then show ?thesis
    by (simp add: calculate_volume_def py_sum_sum_list)
qed

lemma triangle_volume_flip: "triangle_volume (flip_winding t) = - triangle_volume t"
proof -
  obtain x1 y1 z1 x2 y2 z2 x3 y3 z3 where "t = ((x1, y1, z1), (x2, y2, z2), (x3, y3, z3))"
    by (metis prod_cases3)
  then show ?thesis
    by (simp add: triangle_volume_def flip_winding_def algebra_simps)
qed

lemma sum_list_flip:
  "sum_list (map (triangle_volume \<circ> flip_winding) ts) = - sum_list (map triangle_volume ts)"
  by (induction ts) (simp_all add: triangle_volume_flip)

text \<open>
  Claim C3. For a triangle with vertices (x1,y1,z1), (x2,y2,z2), (x3,y3,z3) the
  per-triangle signed volume of the estimator is
  (1/6) * (-x3*y2*z1 + x2*y3*z1 + x3*y1*z2 - x1*y3*z2 - x2*y1*z3 + x1*y2*z3).
\<close>

theorem signed_volume_formula:
  "signed_volume_of_triangle (x1, y1, z1) (x2, y2, z2) (x3, y3, z3) =
     (1 / 6) * (- (x3 * y2 * z1) + x2 * y3 * z1 + x3 * y1 * z2
                 - x1 * y3 * z2 - x2 * y1 * z3 + x1 * y2 * z3)"
  by simp

text \<open>
  Claim C4. For every mesh and every valid (non-negative) density the returned volume is
  the sum of the per-triangle signed volumes divided by 1000 and the returned mass is that
  volume times the density. No absolute value is taken: the mesh with every winding
  reversed gets the negated volume and the negated mass.
\<close>

theorem calculate_volume_signed_sum:
  assumes "0 \<le> d"
  shows "calculate_volume self d =
           Inr ((\<Sum>t\<leftarrow>triangles self. triangle_volume t) / 1000,
                (\<Sum>t\<leftarrow>triangles self. triangle_volume t) / 1000 * d)
         \<and> calculate_volume (self\<lparr>triangles := map flip_winding (triangles self)\<rparr>) d =
           Inr (- ((\<Sum>t\<leftarrow>triangles self. triangle_volume t) / 1000),
                - ((\<Sum>t\<leftarrow>triangles self. triangle_volume t) / 1000 * d))"
  by (simp add: calculate_volume_eq sum_list_flip)

theorem calculate_volume_signed_sum_witness:
  "(0::real) \<le> 5 / 4
   \<and> calculate_volume \<lparr>triangles = [((1, 0, 0), (0, 0, 1), (0, 1, 0))]\<rparr> (5 / 4)
       = Inr (- (1 / 6000), - (1 / 4800))
   \<and> calculate_volume \<lparr>triangles = [((1, 0, 0), (0, 1, 0), (0, 0, 1))]\<rparr> (5 / 4)
       = Inr (1 / 6000, 1 / 4800)"
  using calculate_volume_signed_sum
          [of "5 / 4" "\<lparr>triangles = [((1, 0, 0), (0, 0, 1), (0, 1, 0))]\<rparr>"]
  by (simp add: triangle_volume_def flip_winding_def)

text \<open>
  Claim C8. For every non-negative density the estimator applied to the empty mesh
  succeeds with volume exactly 0 and mass exactly 0.
\<close>

theorem calculate_volume_empty:
  assumes "0 \<le> d"
  shows "calculate_volume \<lparr>triangles = []\<rparr> d = Inr (0, 0)"
  by (simp add: calculate_volume_def py_sum_def)

theorem calculate_volume_empty_witness:
  "(0::real) \<le> 5 / 4 \<and> calculate_volume STLUtils_init (5 / 4) = Inr (0, 0)"
  using calculate_volume_empty [of "5 / 4"]
  by (simp add: STLUtils_init_def)

text \<open>
  Claim C1, as stated: a density below zero makes the estimator fail instead of returning
  a pair. The code does not look at the sign of the density; at density -1 it returns the
  pair for the empty mesh and for a mesh of one triangle.
\<close>

theorem negative_density_counterexample:
  "calculate_volume \<lparr>triangles = []\<rparr> (- 1) = Inr (0, 0)
   \<and> calculate_volume \<lparr>triangles = [((1, 0, 0), (0, 1, 0), (0, 0, 1))]\<rparr> (- 1)
       = Inr (1 / 6000, - (1 / 6000))"
  by (simp add: calculate_volume_def py_sum_def Let_def)

text \<open>
  Claim C1, amended. For every mesh and every density below zero the estimator returns
  the pair of the signed volume and the volume times the density; it never fails.
\<close>

theorem negative_density_returns_pair:
  assumes "d < 0"
  shows "calculate_volume self d =
           Inr ((\<Sum>t\<leftarrow>triangles self. triangle_volume t) / 1000,
                (\<Sum>t\<leftarrow>triangles self. triangle_volume t) / 1000 * d)"
  by (rule calculate_volume_eq)

theorem negative_density_returns_pair_witness:
  "(- 2 :: real) < 0
   \<and> calculate_volume \<lparr>triangles = [((1, 0, 0), (0, 1, 0), (0, 0, 1))]\<rparr> (- 2)
       = Inr (1 / 6000, - (1 / 3000))"
  using negative_density_returns_pair
          [of "- 2" "\<lparr>triangles = [((1, 0, 0), (0, 1, 0), (0, 0, 1))]\<rparr>"]
  by (simp add: triangle_volume_def)

subsection \<open>Facts about format detection and the decoder\<close>

lemma startswith_Nil: "startswith s []"
  by (simp add: startswith_def)

lemma startswith_Cons:
  "startswith s (c # p) = (case s of [] \<Rightarrow> False | x # s' \<Rightarrow> x = c \<and> startswith s' p)"
  by (cases s) (auto simp add: startswith_def)

lemma utf8_decode_ascii:
  "unat b < 0x80 \<Longrightarrow> utf8_decode_replace (b # bs) = unat b # utf8_decode_replace bs"
  by simp

lemma utf8_decode_head_ascii:
  assumes "utf8_decode_replace (b # bs) = c # cs" and "c < 0x80"
  shows "unat b = c \<and> cs = utf8_decode_replace bs"
  using assms
  by (auto simp add: Let_def continuation_def split: if_splits list.splits)

lemma utf8_decode_Nil_iff: "utf8_decode_replace bs = [] \<longleftrightarrow> bs = []"
  by (cases bs) (auto simp add: Let_def split: list.splits)

lemma startswith_decode_ascii:
  "\<forall>c\<in>set p. c < 0x80 \<Longrightarrow>
     startswith (utf8_decode_replace bs) p = startswith (map unat bs) p"
proof (induction p arbitrary: bs)
  case Nil
  show ?case by (simp add: startswith_Nil)
next
  case (Cons c p)
  show ?case
  proof (cases bs)
    case Nil
    then show ?thesis by (simp add: startswith_Cons)
  next
    case bs: (Cons b bs')
    show ?thesis
    proof (cases "unat b < 0x80")
      case True
      with Cons bs show ?thesis by (simp add: startswith_Cons)
    next
      case False
      have "utf8_decode_replace (b # bs') \<noteq> []"
        using utf8_decode_Nil_iff [of "b # bs'"] by blast
      then obtain x xs where x: "utf8_decode_replace (b # bs') = x # xs"
        by (cases "utf8_decode_replace (b # bs')") auto
      have "x \<noteq> c"
      proof
        assume "x = c"
        with Cons.prems have "x < 0x80" by simp
        from utf8_decode_head_ascii [OF x this] False \<open>x < 0x80\<close> show False by simp
      qed
      moreover have "unat b \<noteq> c" using False Cons.prems by auto
      ultimately show ?thesis using bs x by (simp add: startswith_Cons del: utf8_decode_replace.simps)
    qed
  qed
qed

lemma startswith_solid_bytes:
  "startswith (utf8_decode_replace bs) solid = startswith bs solid_bytes"
proof -
  have s: "solid = map unat solid_bytes"
    by (simp add: solid_def solid_bytes_def)
  have "startswith (utf8_decode_replace bs) solid = startswith (map unat bs) solid"
    by (rule startswith_decode_ascii) (simp add: solid_def)
  also have "\<dots> = startswith bs solid_bytes"
    unfolding s startswith_def
    by (simp add: take_map inj_map_eq_map)
  finally show ?thesis .
qed

lemma startswith_take:
  "length p \<le> n \<Longrightarrow> startswith (take n s) p = startswith s p"
  by (simp add: startswith_def min_def)

lemma is_binary_bytes: "is_binary file = (\<not> startswith file solid_bytes)"
  by (simp add: is_binary_def fread_def startswith_solid_bytes startswith_take solid_bytes_def)

lemma unpack_3f_eq:
  "unpack_3f flt buf = (if length buf = 12 then Inr (vertex flt buf) else Inl (StructError 12))"
  by (simp add: unpack_3f_def vertex_def)

lemma read_triangle_short:
  "length f < 48 \<Longrightarrow> read_triangle flt f = Inl (StructError 12)"
  by (auto simp add: read_triangle_def fread_def unpack_3f_eq min_def)

lemma read_triangle_long:
  "48 \<le> length f \<Longrightarrow>
     read_triangle flt f = Inr (record_triangle flt (split_record f), drop 50 f)"
  by (auto simp add: read_triangle_def fread_def unpack_3f_eq min_def
      record_triangle_def split_record_def)

lemma read_loop_eq:
  "read_loop flt n f ts =
     (if n = 0 \<or> 50 * n \<le> length f + 2
      then (Inr (), ts @ map (record_triangle flt) (records_of n f))
      else (Inl (StructError 12),
            ts @ map (record_triangle flt) (records_of ((length f + 2) div 50) f)))"
proof (induction n arbitrary: f ts)
  case 0
  show ?case by simp
next
  case (Suc n)
  show ?case
  proof (cases "length f < 48")
    case True
    then have "(length f + 2) div 50 = 0" by simp
    with True show ?thesis by (simp add: read_triangle_short del: add_2_eq_Suc add_2_eq_Suc')
  next
    case False
    then have long: "48 \<le> length f" by simp
    show ?thesis
    proof (cases "length f < 50")
      case True
      with long have d: "(length f + 2) div 50 = 1" by simp
      from True have e: "drop 50 f = []" by simp
      show ?thesis
        using long True
        by (cases n)
          (simp_all add: read_triangle_long read_triangle_short d e
             del: add_2_eq_Suc add_2_eq_Suc')
    next
      case False
      then have "length f + 2 - 50 = length f - 50 + 2" by simp
      moreover have "(length f + 2) div 50 = Suc ((length f + 2 - 50) div 50)"
        using False by (intro le_div_geq) simp_all
      ultimately have d: "(length f + 2) div 50 = Suc ((length f - 50 + 2) div 50)"
        by (simp only:)
      show ?thesis
        using long False
        by (auto simp add: read_triangle_long Suc.IH d simp del: add_2_eq_Suc add_2_eq_Suc')
    qed
  qed
qed



lemma read_stl_eq:
  "read_stl flt bo file self =
     (if \<not> is_binary file then (Inr (), self)
      else if length file < 84 then (Inl (StructError 4), self)
      else (case read_loop flt (declared_count bo file) (drop 84 file) (triangles self) of
              (r, ts) \<Rightarrow> (r, self\<lparr>triangles := ts\<rparr>)))"
  by (auto simp add: read_stl_def fread_def unpack_I_def declared_count_def min_def Let_def)

lemma read_stl_binary:
  assumes "is_binary file"
  shows "read_stl flt bo file self =
     (if length file < 84 then (Inl (StructError 4), self)
      else if length file + 2 < 84 + 50 * declared_count bo file
      then (Inl (StructError 12),
            self\<lparr>triangles := triangles self @
               map (record_triangle flt) (records_of ((length file - 82) div 50) (drop 84 file))\<rparr>)
      else (Inr (),
            self\<lparr>triangles := triangles self @
               map (record_triangle flt) (records_of (declared_count bo file) (drop 84 file))\<rparr>))"
proof (cases "length file < 84")
  case True
  with assms show ?thesis by (simp add: read_stl_eq)
next
  case False
  then have l: "length file - 84 + 2 = length file - 82" by simp
  show ?thesis
  proof (cases "length file + 2 < 84 + 50 * declared_count bo file")
    case True
    with False have "\<not> (declared_count bo file = 0
        \<or> 50 * declared_count bo file \<le> length (drop 84 file) + 2)"
      by auto
    with assms False True show ?thesis
      by (simp add: read_stl_eq read_loop_eq l del: add_2_eq_Suc add_2_eq_Suc')
  next
    case nt: False
    with False have "declared_count bo file = 0
        \<or> 50 * declared_count bo file \<le> length (drop 84 file) + 2"
      by auto
    with assms False nt show ?thesis
      by (simp add: read_stl_eq read_loop_eq del: add_2_eq_Suc add_2_eq_Suc')
  qed
qed

lemma split_record_bytes:
  "record_ok r \<Longrightarrow> split_record (record_bytes r @ tl0) = r"
  by (cases r) (simp add: record_ok_def record_bytes_def split_record_def)

lemma length_record_bytes: "record_ok r \<Longrightarrow> length (record_bytes r) = 50"
  by (cases r) (simp add: record_ok_def record_bytes_def)

lemma records_of_concat:
  "\<forall>r\<in>set recs. record_ok r \<Longrightarrow>
     records_of (length recs) (concat (map record_bytes recs) @ rest) = recs"
  by (induction recs) (simp_all add: split_record_bytes length_record_bytes)

lemma length_concat_records:
  "\<forall>r\<in>set recs. record_ok r \<Longrightarrow> length (concat (map record_bytes recs)) = 50 * length recs"
  by (induction recs) (simp_all add: length_record_bytes)

lemma float32_value_one: "float32_value 0x3F800000 = 1"
  by (simp add: float32_value_def Let_def drop_bit_eq_div)

lemma float32_value_zero: "float32_value 0 = 0"
  by (simp add: float32_value_def)

lemma record_ok_unit: "record_ok unit_record"
  by (simp add: record_ok_def unit_record_def float_one_def float_zero_def)

lemma record_ok_flipped: "record_ok flipped_record"
  by (simp add: record_ok_def flipped_record_def float_one_def float_zero_def)

lemma unit_record_triangle: "record_triangle float32_value unit_record = unit_triangle"
  by (simp add: record_triangle_def unit_record_def vertex_def unit_triangle_def
      float_one_def float_zero_def float32_value_one float32_value_zero)

lemma flipped_record_triangle: "record_triangle float32_value flipped_record = flipped_triangle"
  by (simp add: record_triangle_def flipped_record_def vertex_def flipped_triangle_def
      float_one_def float_zero_def float32_value_one float32_value_zero)

lemma length_zero_header: "length zero_header = 80"
  by (simp add: zero_header_def)

lemma is_binary_zero_header: "is_binary (zero_header @ rest)"
  by (simp add: is_binary_bytes startswith_def solid_bytes_def zero_header_def)

lemma length_unit_geometry: "length unit_geometry = 48"
  by (simp add: unit_geometry_def float_one_def float_zero_def)

lemma split_unit_geometry:
  "record_triangle flt (split_record unit_geometry) = record_triangle flt unit_record"
  by (simp add: unit_geometry_def record_triangle_def split_record_def unit_record_def
      float_one_def float_zero_def)

lemma two_of_five:
  "is_binary two_of_five_stream
   \<and> length two_of_five_stream = 184
   \<and> declared_count LittleEndian two_of_five_stream = 5
   \<and> records_of 2 (drop 84 two_of_five_stream) = [unit_record, unit_record]"
proof -
  have d: "drop 84 two_of_five_stream = concat (map record_bytes [unit_record, unit_record]) @ []"
    by (simp add: two_of_five_stream_def length_zero_header)
  have "records_of (length [unit_record, unit_record]) (drop 84 two_of_five_stream)
          = [unit_record, unit_record]"
    unfolding d by (rule records_of_concat) (simp add: record_ok_unit)
  then have r: "records_of 2 (drop 84 two_of_five_stream) = [unit_record, unit_record]"
    by (simp add: numeral_2_eq_2)
  have l: "length two_of_five_stream = 184"
    by (simp add: two_of_five_stream_def length_zero_header length_record_bytes record_ok_unit)
  have c: "declared_count LittleEndian two_of_five_stream = 5"
    by (simp add: declared_count_def two_of_five_stream_def length_zero_header native_word_def)
  show ?thesis
    using r l c by (simp add: two_of_five_stream_def is_binary_zero_header)
qed

lemma no_attribute:
  "is_binary no_attribute_stream
   \<and> length no_attribute_stream = 132
   \<and> declared_count LittleEndian no_attribute_stream = 1
   \<and> drop 84 no_attribute_stream = unit_geometry"
  by (simp add: no_attribute_stream_def is_binary_zero_header length_zero_header
      length_unit_geometry declared_count_def native_word_def)

lemma none_of_five:
  "is_binary none_of_five_stream
   \<and> length none_of_five_stream = 84
   \<and> declared_count LittleEndian none_of_five_stream = 5"
  by (simp add: none_of_five_stream_def is_binary_zero_header length_zero_header
      declared_count_def native_word_def)

lemma short_count:
  "is_binary short_count_stream \<and> length short_count_stream = 82"
  by (simp add: short_count_stream_def is_binary_zero_header length_zero_header)

subsection \<open>Format detection\<close>

text \<open>
  Claim C7. Format detection looks at the leading 80 bytes only, decodes them as text with
  every ill-formed sequence replaced (the decoder is a total function), and takes the
  stream for the textual variant exactly when the decoded header starts with \<open>solid\<close>,
  which is the case exactly when the bytes start with \<open>b'solid'\<close>; every other stream is
  binary.
\<close>

theorem is_binary_detection:
  "is_binary file = (\<not> startswith (utf8_decode_replace (take 80 file)) solid)
   \<and> is_binary file = (\<not> startswith file solid_bytes)
   \<and> is_binary (take 80 file) = is_binary file"
proof -
  have "is_binary file = (\<not> startswith (utf8_decode_replace (take 80 file)) solid)"
    by (simp add: is_binary_def fread_def)
  moreover have "is_binary (take 80 file) = is_binary file"
    by (simp add: is_binary_def fread_def)
  ultimately show ?thesis
    by (simp add: is_binary_bytes)
qed

theorem is_binary_detection_witness:
  "is_binary (zero_header @ [5, 0, 0, 0]) \<and> \<not> is_binary solid_stream"
proof -
  have "\<not> startswith (zero_header @ [5, 0, 0, 0]) solid_bytes"
    by (simp add: startswith_def solid_bytes_def zero_header_def)
  moreover have "startswith solid_stream solid_bytes"
    by (simp add: startswith_def solid_bytes_def solid_stream_def)
  ultimately show ?thesis
    using is_binary_detection [of "zero_header @ [5, 0, 0, 0]", THEN conjunct2, THEN conjunct1]
      is_binary_detection [of solid_stream, THEN conjunct2, THEN conjunct1]
    by simp
qed

subsection \<open>Decoding\<close>

text \<open>
  Claim C6. A stream treated as binary that consists of an 80-byte header, a 4-byte count
  and as many 50-byte records as the count says (and anything after them) decodes without
  error: the header's content is not looked at, the count is read in the platform's byte
  order while every coordinate is read little-endian whatever the platform, the 12 bytes
  of the normal and the 2 attribute bytes of each record do not reach the result, and the
  triangles are appended in the order of the records.
\<close>

theorem binary_decoding_layout:
  assumes "is_binary file"
    and "file = header @ cnt @ concat (map record_bytes recs) @ rest"
    and "length header = 80" and "length cnt = 4"
    and "length recs = unat (native_word bo cnt)"
    and "\<forall>r\<in>set recs. record_ok r"
  shows "read_stl flt bo file self =
           (Inr (), self\<lparr>triangles := triangles self @ map (record_triangle flt) recs\<rparr>)
         \<and> native_word LittleEndian cnt = le_word cnt
         \<and> native_word BigEndian cnt = le_word (rev cnt)"
proof -
  have d: "drop 84 file = concat (map record_bytes recs) @ rest"
    using assms(2-4) by simp
  have t: "take 4 (drop 80 file) = cnt"
    using assms(2-4) by simp
  have n: "declared_count bo file = length recs"
    using assms(5) by (simp add: declared_count_def t)
  have len: "length file = 84 + 50 * length recs + length rest"
    using assms(2-4) length_concat_records [OF assms(6)] by simp
  have "read_stl flt bo file self =
          (Inr (), self\<lparr>triangles := triangles self @ map (record_triangle flt) recs\<rparr>)"
    using assms(1) len
    by (simp add: read_stl_binary n d records_of_concat [OF assms(6)])
  then show ?thesis
    by (simp add: native_word_def)
qed

theorem binary_decoding_layout_witness:
  "is_binary big_endian_stream
   \<and> length zero_header = 80
   \<and> length [0, 0, 0, 2 :: byte] = 4
   \<and> length [unit_record, flipped_record] = unat (native_word BigEndian [0, 0, 0, 2])
   \<and> record_ok unit_record \<and> record_ok flipped_record
   \<and> read_stl float32_value BigEndian big_endian_stream STLUtils_init
       = (Inr (), \<lparr>triangles = [unit_triangle, flipped_triangle]\<rparr>)"
proof -
  have b: "is_binary big_endian_stream"
    by (simp add: big_endian_stream_def is_binary_zero_header)
  have f: "big_endian_stream =
             zero_header @ [0, 0, 0, 2] @ concat (map record_bytes [unit_record, flipped_record]) @ [1]"
    by (simp add: big_endian_stream_def)
  have c: "length [unit_record, flipped_record] = unat (native_word BigEndian [0, 0, 0, 2])"
    by (simp add: native_word_def)
  have k: "\<forall>r\<in>set [unit_record, flipped_record]. record_ok r"
    by (simp add: record_ok_unit record_ok_flipped)
  have l4: "length [0, 0, 0, 2 :: byte] = 4"
    by simp
  show ?thesis
    using binary_decoding_layout [OF b f length_zero_header l4 c k,
        of float32_value STLUtils_init]
      b c
    by (simp add: STLUtils_init_def length_zero_header record_ok_unit record_ok_flipped
        unit_record_triangle flipped_record_triangle)
qed

text \<open>
  Claim C2, as stated: every binary stream that ends before its declared triangles are
  complete makes decoding fail with an error that carries the number of triangles read.
  The stream below declares 1 triangle and ends 2 bytes before the end of that
  triangle's record; decoding returns normally with the triangle. And the error of a
  stream that ends after 2 of 5 declared triangles is the same value as the error of a
  stream that ends after none of 5: it carries no count.
\<close>

theorem truncated_stream_counterexample:
  "is_binary no_attribute_stream
   \<and> length no_attribute_stream < 80 + 4 + 50 * declared_count LittleEndian no_attribute_stream
   \<and> read_stl float32_value LittleEndian no_attribute_stream STLUtils_init
       = (Inr (), \<lparr>triangles = [unit_triangle]\<rparr>)
   \<and> fst (read_stl float32_value LittleEndian two_of_five_stream STLUtils_init)
       = Inl (StructError 12)
   \<and> fst (read_stl float32_value LittleEndian none_of_five_stream STLUtils_init)
       = Inl (StructError 12)"
  using no_attribute two_of_five none_of_five
  by (simp add: read_stl_binary STLUtils_init_def split_unit_geometry unit_record_triangle)

text \<open>
  Claim C2, amended. On a stream treated as binary, decoding fails exactly when the stream
  ends before the 4-byte count is complete or before the 48 bytes of normal and vertices
  of the last declared triangle are. The failure is \<open>struct.error\<close>, whose message names
  the buffer size wanted (4 for the count, 12 for a vector) and not a number of
  triangles; the triangles decoded before the failure stay appended to the decoder's
  list. Every other binary stream decodes without error to exactly the declared number
  of triangles, so no call returns normally with fewer triangles than declared.
\<close>

theorem truncated_stream_struct_error:
  assumes "is_binary file"
  shows "read_stl flt bo file self =
     (if length file < 84 then (Inl (StructError 4), self)
      else if length file + 2 < 84 + 50 * declared_count bo file
      then (Inl (StructError 12),
            self\<lparr>triangles := triangles self @
               map (record_triangle flt) (records_of ((length file - 82) div 50) (drop 84 file))\<rparr>)
      else (Inr (),
            self\<lparr>triangles := triangles self @
               map (record_triangle flt) (records_of (declared_count bo file) (drop 84 file))\<rparr>))"
  by (rule read_stl_binary [OF assms])

theorem truncated_stream_struct_error_witness:
  "is_binary two_of_five_stream
   \<and> read_stl float32_value LittleEndian two_of_five_stream STLUtils_init
       = (Inl (StructError 12), \<lparr>triangles = [unit_triangle, unit_triangle]\<rparr>)
   \<and> is_binary short_count_stream
   \<and> read_stl float32_value LittleEndian short_count_stream STLUtils_init
       = (Inl (StructError 4), STLUtils_init)"
proof -
  have a: "is_binary two_of_five_stream" and b: "is_binary short_count_stream"
    using two_of_five short_count by simp_all
  show ?thesis
    using truncated_stream_struct_error [OF a, of float32_value LittleEndian STLUtils_init]
      truncated_stream_struct_error [OF b, of float32_value LittleEndian STLUtils_init]
      two_of_five short_count
    by (simp add: STLUtils_init_def unit_record_triangle)
qed

text \<open>
  Claim C5. When the decoded 80-byte header starts with \<open>solid\<close>, decoding returns
  normally and leaves the decoder as it was, so a fresh decoder keeps its empty triangle
  list, and the estimator applied to it gives volume 0 and mass 0.
\<close>

theorem textual_stream_empty_mesh:
  assumes "startswith (utf8_decode_replace (take 80 file)) solid"
  shows "read_stl flt bo file self = (Inr (), self)
         \<and> triangles (snd (read_stl flt bo file STLUtils_init)) = []
         \<and> calculate_volume (snd (read_stl flt bo file STLUtils_init)) d = Inr (0, 0)"
proof -
  have "\<not> is_binary file"
    using assms by (simp add: is_binary_def fread_def)
  then have "read_stl flt bo file s = (Inr (), s)" for s
    by (simp add: read_stl_def)
  then show ?thesis
    by (simp add: STLUtils_init_def calculate_volume_def py_sum_def)
qed

theorem textual_stream_empty_mesh_witness:
  "startswith (utf8_decode_replace (take 80 solid_stream)) solid
   \<and> read_stl float32_value LittleEndian solid_stream STLUtils_init = (Inr (), STLUtils_init)
   \<and> triangles (snd (read_stl float32_value LittleEndian solid_stream STLUtils_init)) = []
   \<and> calculate_volume (snd (read_stl float32_value LittleEndian solid_stream STLUtils_init))
        (5 / 4) = Inr (0, 0)"
proof -
  have h: "startswith (utf8_decode_replace (take 80 solid_stream)) solid"
    by (simp add: startswith_def solid_def solid_stream_def)
  show ?thesis
    using textual_stream_empty_mesh [OF h, of float32_value LittleEndian STLUtils_init "5 / 4"] h
    by (simp add: STLUtils_init_def calculate_volume_def py_sum_def)
qed



text \<open>
  Claim C10. Decoding appends to the decoder's triangle list: when a binary stream
  decodes to the triangles T from a fresh decoder, a decoder whose list is L ends with
  L @ T, so a second decode on the same instance ends with T @ T.
\<close>

theorem read_stl_appends:
  assumes "is_binary file"
    and "read_stl flt bo file STLUtils_init = (Inr (), fresh)"
  shows "read_stl flt bo file self =
           (Inr (), self\<lparr>triangles := triangles self @ triangles fresh\<rparr>)
         \<and> read_stl flt bo file fresh =
           (Inr (), fresh\<lparr>triangles := triangles fresh @ triangles fresh\<rparr>)"
proof -
  have "read_stl flt bo file s = (Inr (), s\<lparr>triangles := triangles s @ triangles fresh\<rparr>)" for s
    using assms
    by (auto simp add: read_stl_binary [OF assms(1)] STLUtils_init_def split: if_splits)
  then show ?thesis by simp
qed

theorem read_stl_appends_witness:
  "is_binary one_triangle_stream
   \<and> read_stl float32_value LittleEndian one_triangle_stream STLUtils_init
       = (Inr (), \<lparr>triangles = [unit_triangle]\<rparr>)
   \<and> read_stl float32_value LittleEndian one_triangle_stream \<lparr>triangles = [flipped_triangle]\<rparr>
       = (Inr (), \<lparr>triangles = [flipped_triangle, unit_triangle]\<rparr>)
   \<and> read_stl float32_value LittleEndian one_triangle_stream \<lparr>triangles = [unit_triangle]\<rparr>
       = (Inr (), \<lparr>triangles = [unit_triangle, unit_triangle]\<rparr>)"
proof -
  have b: "is_binary one_triangle_stream"
    by (simp add: one_triangle_stream_def is_binary_zero_header)
  have l: "length one_triangle_stream = 134"
    by (simp add: one_triangle_stream_def length_zero_header length_record_bytes record_ok_unit)
  have c: "declared_count LittleEndian one_triangle_stream = 1"
    by (simp add: declared_count_def one_triangle_stream_def length_zero_header native_word_def)
  have d: "drop 84 one_triangle_stream = concat (map record_bytes [unit_record]) @ []"
    by (simp add: one_triangle_stream_def length_zero_header)
  have "records_of (length [unit_record]) (drop 84 one_triangle_stream) = [unit_record]"
    unfolding d by (rule records_of_concat) (simp add: record_ok_unit)
  then have r: "records_of (Suc 0) (drop 84 one_triangle_stream) = [unit_record]"
    by simp
  have h: "read_stl float32_value LittleEndian one_triangle_stream STLUtils_init
             = (Inr (), \<lparr>triangles = [unit_triangle]\<rparr>)"
    using l c r
    by (simp add: read_stl_binary [OF b] STLUtils_init_def unit_record_triangle)
  show ?thesis
    using read_stl_appends [OF b h, of "\<lparr>triangles = [flipped_triangle]\<rparr>"] b h
    by simp
qed

end
